theory Spec2Isabelle
  imports Complex_Main "HOL-Library.Word"
begin

section \<open>The ESP8266 1-wire sensor sketch (esp-now-sensor.ino)\<close>

text \<open>
  The sketch has three parts that run once per wake-up: the acquisition of two
  temperature readings, the transmission of one record over ESP-NOW with a bounded
  retry loop, and the request for deep sleep. The vendor libraries (Serial, WiFi,
  ESP-NOW, OneWire, DallasTemperature, ESP) are outside the sketch: what they return
  is an input of the model, and every call the sketch makes to them is appended to a
  trace, in program order.
\<close>

subsection \<open>Scalars\<close>

type_synonym uint8_t = "8 word"
type_synonym uint32_t = "32 word"

text \<open>
  A C \<open>float\<close>. The sketch only compares a reading with the constant \<open>-120\<close> and
  copies it, so a finite number is represented by the real number it denotes (the
  two zeros are not told apart); the infinities and the not-a-number of IEEE 754 are
  kept apart, since every ordered comparison with a not-a-number is false.
\<close>

datatype c_float = Finite real | PInf | NInf | NaN

fun float_le :: "c_float \<Rightarrow> c_float \<Rightarrow> bool" where
  "float_le NaN _ = False"
| "float_le _ NaN = False"
| "float_le NInf _ = True"
| "float_le _ PInf = True"
| "float_le (Finite a) (Finite b) = (a \<le> b)"
| "float_le PInf _ = False"
| "float_le _ NInf = False"

fun float_gt :: "c_float \<Rightarrow> c_float \<Rightarrow> bool" where
  "float_gt NaN _ = False"
| "float_gt _ NaN = False"
| "float_gt PInf PInf = False"
| "float_gt PInf _ = True"
| "float_gt NInf _ = False"
| "float_gt (Finite a) (Finite b) = (a > b)"
| "float_gt (Finite a) NInf = True"
| "float_gt (Finite a) PInf = False"

text \<open>The conversion of an \<open>int\<close> operand of a comparison with a \<open>float\<close>.\<close>

definition int_to_float :: "int \<Rightarrow> c_float" where
  "int_to_float i = Finite (of_int i)"

subsection \<open>Compile-time configuration (lines 19 to 40)\<close>

definition UNIQUE_DEVICE_ID :: int where
  "UNIQUE_DEVICE_ID = 0x01"

definition SEND_INTERVALL_SECONDS :: int where
  "SEND_INTERVALL_SECONDS = 1800"

definition VER_MAJOR :: int where
  "VER_MAJOR = 0x01"

definition VER_MINOR :: int where
  "VER_MINOR = 0x01"

text \<open>
  A \<open>DeviceAddress\<close> is an array of eight bytes. The comment above the two constants
  lists the addresses of five probes; it is kept as \<open>sensor_overview\<close>.
\<close>

type_synonym DeviceAddress = "uint8_t list"

definition sensor_overview :: "DeviceAddress list" where
  "sensor_overview =
     [[0x28, 0x47, 0xCB, 0x57, 0x04, 0x71, 0x3C, 0x13],
      [0x28, 0xC0, 0xB7, 0x57, 0x04, 0x11, 0x3C, 0x6A],
      [0x28, 0x14, 0x44, 0x57, 0x04, 0xD8, 0x3C, 0x9C],
      [0x28, 0xB2, 0xC5, 0x57, 0x04, 0x92, 0x3C, 0x08],
      [0x28, 0xEF, 0xC5, 0x57, 0x04, 0x08, 0x3C, 0x48]]"

definition sensor1 :: DeviceAddress where
  "sensor1 = [0x28, 0xEF, 0xC5, 0x57, 0x04, 0x08, 0x3C, 0x48]"

definition sensor2 :: DeviceAddress where
  "sensor2 = [0x28, 0xEF, 0xC5, 0x57, 0x04, 0x08, 0x3C, 0x48]"

definition receiverAdress_init :: "uint8_t list" where
  "receiverAdress_init = [0x08, 0xAA, 0xB5, 0x8B, 0x01, 0xC8]"

subsection \<open>The outgoing record (lines 47 to 74)\<close>

datatype sensor_states = SUCCESS | FAILED | NOT_USED

text \<open>The enumerators' values, as they are stored in the \<open>uint8_t\<close> state field.\<close>

fun state_code :: "sensor_states \<Rightarrow> uint8_t" where
  "state_code SUCCESS = 0"
| "state_code FAILED = 1"
| "state_code NOT_USED = 2"

text \<open>
  The fields \<open>value\<close> and \<open>id\<close> of the source are \<open>value_f\<close> and \<open>id_f\<close> here.
\<close>

record struct_sensor =
  state :: uint8_t
  value_f :: c_float

record struct_version =
  major :: uint8_t
  minor :: uint8_t

record struct_message =
  id_f :: uint8_t
  sensor_1 :: struct_sensor
  sensor_2 :: struct_sensor
  ver :: struct_version
  intervall :: uint32_t

text \<open>
  \<open>sizeof(myData)\<close> with the natural alignment of the 32-bit target: the identifier
  and three bytes of padding, two sensors of eight bytes each, two version bytes and
  two of padding, four bytes of interval. No property below depends on the number.
\<close>

definition sizeof_myData :: nat where
  "sizeof_myData = 28"

subsection \<open>The calls to the platform, and the state of the sketch\<close>

datatype wifi_mode = WIFI_STA

datatype esp_now_role = ESP_NOW_ROLE_CONTROLLER | ESP_NOW_ROLE_SLAVE

datatype event =
    Serial_begin nat
  | Serial_println string
  | Sensors_begin
  | WiFi_mode wifi_mode
  | Esp_now_init
  | Esp_now_set_self_role esp_now_role
  | Esp_now_register_send_cb
  | Esp_now_add_peer "uint8_t list" esp_now_role nat
  | RequestTemperatures
  | GetTempC DeviceAddress
  | Esp_now_send "uint8_t list" struct_message nat
  | DeepSleep int
  | Yield

text \<open>
  The globals the sketch can write (\<open>myData\<close> and the array \<open>receiverAdress\<close>, which is
  not declared \<open>const\<close>), and the trace of the platform calls made so far.
\<close>

record world =
  myData :: struct_message
  receiverAdress :: "uint8_t list"
  trace :: "event list"

definition emit :: "event \<Rightarrow> world \<Rightarrow> world" where
  "emit e w = w\<lparr>trace := trace w @ [e]\<rparr>"

text \<open>The globals at reset: \<open>myData\<close> has static storage and is zero-initialised.\<close>

definition zero_sensor :: struct_sensor where
  "zero_sensor = \<lparr>state = 0, value_f = Finite 0\<rparr>"

definition zero_message :: struct_message where
  "zero_message =
     \<lparr>id_f = 0, sensor_1 = zero_sensor, sensor_2 = zero_sensor,
      ver = \<lparr>major = 0, minor = 0\<rparr>, intervall = 0\<rparr>"

definition world_at_reset :: world where
  "world_at_reset =
     \<lparr>myData = zero_message, receiverAdress = receiverAdress_init, trace = []\<rparr>"

subsection \<open>setup (lines 81 to 112)\<close>

text \<open>
  \<open>init_res\<close> is what \<open>esp_now_init()\<close> returns. The wait \<open>while (!Serial);\<close> makes no
  call that the trace records. The callback \<open>OnDataSent\<close> only prints; it is
  registered here and never read by the rest of the sketch.
\<close>

definition setup_fn :: "int \<Rightarrow> world \<Rightarrow> world" where
  "setup_fn init_res w0 =
     (let d0 = myData w0;
          d1 = d0\<lparr>id_f := of_int UNIQUE_DEVICE_ID\<rparr>;
          d2 = d1\<lparr>ver := (ver d1)\<lparr>major := of_int VER_MAJOR\<rparr>\<rparr>;
          d3 = d2\<lparr>ver := (ver d2)\<lparr>minor := of_int VER_MINOR\<rparr>\<rparr>;
          d4 = d3\<lparr>intervall := of_int SEND_INTERVALL_SECONDS\<rparr>;
          w1 = w0\<lparr>myData := d4\<rparr>;
          w2 = emit (Serial_begin 115200) w1;
          w3 = emit Sensors_begin w2;
          w4 = emit (WiFi_mode WIFI_STA) w3;
          w5 = emit Esp_now_init w4
      in if init_res \<noteq> 0
         then emit (Serial_println ''Error initializing ESP-NOW'') w5
         else
           (let w6 = emit (Esp_now_set_self_role ESP_NOW_ROLE_CONTROLLER) w5;
                w7 = emit Esp_now_register_send_cb w6
            in emit (Esp_now_add_peer (receiverAdress w7) ESP_NOW_ROLE_SLAVE 1) w7))"

subsection \<open>send_sensor_values (lines 114 to 157)\<close>

text \<open>
  Lines 115 to 132, the acquisition. \<open>t1\<close> and \<open>t2\<close> are what the two calls of
  \<open>sensors.getTempC\<close> return.
\<close>

definition store_sensor_1 :: "c_float \<Rightarrow> world \<Rightarrow> world" where
  "store_sensor_1 temperature w =
     (let d = myData w in
      if float_le temperature (int_to_float (- 120))
      then w\<lparr>myData := d\<lparr>sensor_1 := (sensor_1 d)\<lparr>state := state_code FAILED\<rparr>\<rparr>\<rparr>
      else w\<lparr>myData := d\<lparr>sensor_1 :=
                (sensor_1 d)\<lparr>state := state_code SUCCESS, value_f := temperature\<rparr>\<rparr>\<rparr>)"

definition store_sensor_2 :: "c_float \<Rightarrow> world \<Rightarrow> world" where
  "store_sensor_2 temperature w =
     (let d = myData w in
      if float_le temperature (int_to_float (- 120))
      then w\<lparr>myData := d\<lparr>sensor_2 := (sensor_2 d)\<lparr>state := state_code FAILED\<rparr>\<rparr>\<rparr>
      else w\<lparr>myData := d\<lparr>sensor_2 :=
                (sensor_2 d)\<lparr>state := state_code SUCCESS, value_f := temperature\<rparr>\<rparr>\<rparr>)"

definition acquisition :: "c_float \<Rightarrow> c_float \<Rightarrow> world \<Rightarrow> world" where
  "acquisition t1 t2 w =
     (let w1 = emit RequestTemperatures w;
          w2 = emit (GetTempC sensor1) w1;
          w3 = store_sensor_1 t1 w2;
          w4 = emit (GetTempC sensor2) w3
      in store_sensor_2 t2 w4)"

text \<open>
  Lines 142 to 156, the retry loop. \<open>send_res k\<close> is what the call of
  \<open>esp_now_send\<close> in iteration \<open>k\<close> returns, an \<open>int\<close> as the code of
  \<open>esp_now_init\<close> is. Line 144 stores it in the variable \<open>uint8_t res\<close>: the
  conversion keeps the low eight bits, and line 146 tests that byte. The debug
  prints are compiled out (\<open>DEBUG_PRINT\<close> is not defined).
\<close>

definition res_byte :: "int \<Rightarrow> uint8_t" where
  "res_byte r = of_int r"

definition max_retries :: uint8_t where
  "max_retries = 3"

function retry_loop :: "(nat \<Rightarrow> int) \<Rightarrow> int \<Rightarrow> world \<Rightarrow> world" where
  "retry_loop send_res retry w =
     (if retry < uint max_retries then
        (let w' = emit (Esp_now_send (receiverAdress w) (myData w) sizeof_myData) w;
             res = res_byte (send_res (nat retry))
         in if res = 0 then w' else retry_loop send_res (retry + 1) w')
      else w)"
  by pat_completeness auto
termination
  by (relation "measure (\<lambda>(send_res, retry, w). nat (uint max_retries - retry))") auto

declare retry_loop.simps [simp del]

definition transmission :: "(nat \<Rightarrow> int) \<Rightarrow> world \<Rightarrow> world" where
  "transmission send_res w = retry_loop send_res 0 w"

text \<open>The inputs of one cycle: the two readings and the codes of the send calls.\<close>

record cycle_input =
  temp1 :: c_float
  temp2 :: c_float
  send_results :: "nat \<Rightarrow> int"

definition send_sensor_values :: "cycle_input \<Rightarrow> world \<Rightarrow> world" where
  "send_sensor_values c w = transmission (send_results c) (acquisition (temp1 c) (temp2 c) w)"

subsection \<open>start_deep_sleep and loop (lines 159 to 168)\<close>

text \<open>
  The argument of \<open>ESP.deepSleep\<close> is the product of two \<open>int\<close> literals, computed in
  the 32-bit \<open>int\<close> of the target; the trace records its signed value.
\<close>

definition sleep_time_us :: "32 word" where
  "sleep_time_us = of_int SEND_INTERVALL_SECONDS * 1000000"

definition start_deep_sleep :: "world \<Rightarrow> world" where
  "start_deep_sleep w =
     (let w1 = emit (Serial_println ''Going to deep sleep...'') w;
          w2 = emit (DeepSleep (sint sleep_time_us)) w1
      in emit Yield w2)"

definition loop :: "cycle_input \<Rightarrow> world \<Rightarrow> world" where
  "loop c w = start_deep_sleep (send_sensor_values c w)"

text \<open>
  The Arduino core calls \<open>setup\<close> once after reset and then \<open>loop\<close> again and again;
  \<open>cs\<close> holds the inputs of the cycles that run before the chip resets. On the
  ESP8266 the wake-up from deep sleep is a reset, so a session has one cycle; the
  list admits any number of them.
\<close>

definition boot_session :: "int \<Rightarrow> cycle_input list \<Rightarrow> world" where
  "boot_session init_res cs = fold loop cs (setup_fn init_res world_at_reset)"

section \<open>Properties\<close>

subsection \<open>Auxiliary facts\<close>

lemma float_gt_iff: "float_gt a b \<longleftrightarrow> float_le b a \<and> \<not> float_le a b"
  by (cases a; cases b) auto

lemma myData_emit: "myData (emit e w) = myData w"
  by (simp add: emit_def)
lemma receiverAdress_emit: "receiverAdress (emit e w) = receiverAdress w"
  by (simp add: emit_def)
lemma trace_emit: "trace (emit e w) = trace w @ [e]"
  by (simp add: emit_def)

lemma uint_max_retries: "uint max_retries = 3"
  by (simp add: max_retries_def)
lemma replicate_2: "replicate 2 x = [x, x]"
  by (simp add: numeral_2_eq_2)
lemma replicate_3: "replicate 3 x = [x, x, x]"
  by (simp add: numeral_3_eq_3)

lemma retry_loop_globals:
  "myData (retry_loop f r w) = myData w \<and> receiverAdress (retry_loop f r w) = receiverAdress w"
proof (induction f r w rule: retry_loop.induct)
  case (1 f r w)
  show ?case
  proof (cases "r < uint max_retries")
    case False
    then show ?thesis by (simp add: retry_loop.simps [of f r w])
  next
    case True
    show ?thesis
    proof (cases "res_byte (f (nat r)) = 0")
      case True
      with \<open>r < uint max_retries\<close> show ?thesis
        by (simp add: retry_loop.simps [of f r w] myData_emit receiverAdress_emit)
    next
      case False
      with \<open>r < uint max_retries\<close> 1 show ?thesis
        by (simp add: retry_loop.simps [of f r w] myData_emit receiverAdress_emit)
    qed
  qed
qed

lemma retry_loop_exit: "\<not> r < uint max_retries \<Longrightarrow> retry_loop f r w = w"
  by (simp add: retry_loop.simps [of f r w])

lemma retry_loop_success:
  "r < uint max_retries \<Longrightarrow> res_byte (f (nat r)) = 0 \<Longrightarrow>
   retry_loop f r w = emit (Esp_now_send (receiverAdress w) (myData w) sizeof_myData) w"
  by (simp add: retry_loop.simps [of f r w])

lemma retry_loop_failure:
  "r < uint max_retries \<Longrightarrow> res_byte (f (nat r)) \<noteq> 0 \<Longrightarrow>
   retry_loop f r w =
     retry_loop f (r + 1) (emit (Esp_now_send (receiverAdress w) (myData w) sizeof_myData) w)"
  by (simp add: retry_loop.simps [of f r w])

lemma myData_transmission: "myData (transmission f w) = myData w"
  by (simp add: transmission_def retry_loop_globals)

lemma receiverAdress_transmission: "receiverAdress (transmission f w) = receiverAdress w"
  by (simp add: transmission_def retry_loop_globals)

lemma transmission_trace:
  "trace (transmission f w) =
     trace w @ replicate (if res_byte (f 0) = 0 then 1 else if res_byte (f 1) = 0 then 2 else 3)
                 (Esp_now_send (receiverAdress w) (myData w) sizeof_myData)"
  by (simp add: transmission_def retry_loop.simps [of f 0] retry_loop.simps [of f 1]
      retry_loop.simps [of f 2] retry_loop.simps [of f 3] uint_max_retries
      myData_emit receiverAdress_emit trace_emit Let_def replicate_2 replicate_3)

lemma trace_store_sensor_1: "trace (store_sensor_1 t w) = trace w"
  by (simp add: store_sensor_1_def Let_def)
lemma trace_store_sensor_2: "trace (store_sensor_2 t w) = trace w"
  by (simp add: store_sensor_2_def Let_def)
lemma receiverAdress_store_sensor_1: "receiverAdress (store_sensor_1 t w) = receiverAdress w"
  by (simp add: store_sensor_1_def Let_def)
lemma receiverAdress_store_sensor_2: "receiverAdress (store_sensor_2 t w) = receiverAdress w"
  by (simp add: store_sensor_2_def Let_def)

lemma trace_acquisition:
  "trace (acquisition t1 t2 w) = trace w @ [RequestTemperatures, GetTempC sensor1, GetTempC sensor2]"
  by (simp add: acquisition_def Let_def trace_store_sensor_1 trace_store_sensor_2 trace_emit)

lemma receiverAdress_acquisition: "receiverAdress (acquisition t1 t2 w) = receiverAdress w"
  by (simp add: acquisition_def Let_def receiverAdress_store_sensor_1
      receiverAdress_store_sensor_2 receiverAdress_emit)

text \<open>What the acquisition leaves in the record, field by field.\<close>

lemma sensor_1_acquisition:
  "sensor_1 (myData (acquisition t1 t2 w)) =
     (if float_le t1 (int_to_float (- 120))
      then (sensor_1 (myData w))\<lparr>state := state_code FAILED\<rparr>
      else (sensor_1 (myData w))\<lparr>state := state_code SUCCESS, value_f := t1\<rparr>)"
  by (simp add: acquisition_def store_sensor_1_def store_sensor_2_def Let_def myData_emit)

lemma sensor_2_acquisition:
  "sensor_2 (myData (acquisition t1 t2 w)) =
     (if float_le t2 (int_to_float (- 120))
      then (sensor_2 (myData w))\<lparr>state := state_code FAILED\<rparr>
      else (sensor_2 (myData w))\<lparr>state := state_code SUCCESS, value_f := t2\<rparr>)"
  by (simp add: acquisition_def store_sensor_1_def store_sensor_2_def Let_def myData_emit)

lemma header_acquisition:
  "id_f (myData (acquisition t1 t2 w)) = id_f (myData w) \<and>
   ver (myData (acquisition t1 t2 w)) = ver (myData w) \<and>
   intervall (myData (acquisition t1 t2 w)) = intervall (myData w)"
  by (simp add: acquisition_def store_sensor_1_def store_sensor_2_def Let_def myData_emit)

lemma sint_sleep_time_us: "sint sleep_time_us = 1800000000"
  by (simp add: sleep_time_us_def SEND_INTERVALL_SECONDS_def)

lemma trace_start_deep_sleep:
  "trace (start_deep_sleep w) =
     trace w @ [Serial_println ''Going to deep sleep...'', DeepSleep 1800000000, Yield]"
  by (simp add: start_deep_sleep_def Let_def trace_emit sint_sleep_time_us)

lemma myData_start_deep_sleep: "myData (start_deep_sleep w) = myData w"
  by (simp add: start_deep_sleep_def Let_def myData_emit)

lemma receiverAdress_start_deep_sleep: "receiverAdress (start_deep_sleep w) = receiverAdress w"
  by (simp add: start_deep_sleep_def Let_def receiverAdress_emit)

lemma myData_loop: "myData (loop c w) = myData (acquisition (temp1 c) (temp2 c) w)"
  by (simp add: loop_def send_sensor_values_def myData_start_deep_sleep myData_transmission)

lemma receiverAdress_loop: "receiverAdress (loop c w) = receiverAdress w"
  by (simp add: loop_def send_sensor_values_def receiverAdress_start_deep_sleep
      receiverAdress_transmission receiverAdress_acquisition)

lemma myData_setup_fn:
  "myData (setup_fn r w) =
     (myData w)\<lparr>id_f := of_int UNIQUE_DEVICE_ID,
                ver := \<lparr>major = of_int VER_MAJOR, minor = of_int VER_MINOR\<rparr>,
                intervall := of_int SEND_INTERVALL_SECONDS\<rparr>"
  by (simp add: setup_fn_def Let_def myData_emit)

lemma receiverAdress_setup_fn: "receiverAdress (setup_fn r w) = receiverAdress w"
  by (simp add: setup_fn_def Let_def receiverAdress_emit)

lemma trace_loop:
  "trace (loop c w) =
     trace w @ [RequestTemperatures, GetTempC sensor1, GetTempC sensor2]
       @ replicate (if res_byte (send_results c 0) = 0 then 1
                  else if res_byte (send_results c 1) = 0 then 2 else 3)
           (Esp_now_send (receiverAdress w) (myData (acquisition (temp1 c) (temp2 c) w))
              sizeof_myData)
       @ [Serial_println ''Going to deep sleep...'', DeepSleep 1800000000, Yield]"
  by (simp only: loop_def send_sensor_values_def trace_start_deep_sleep transmission_trace
      trace_acquisition receiverAdress_acquisition append_assoc)

lemma fold_loop_header:
  "id_f (myData (fold loop cs w)) = id_f (myData w) \<and>
   ver (myData (fold loop cs w)) = ver (myData w) \<and>
   intervall (myData (fold loop cs w)) = intervall (myData w)"
  by (induction cs arbitrary: w) (simp_all add: myData_loop header_acquisition)

lemma fold_loop_failed_1:
  "\<forall>c \<in> set cs. float_le (temp1 c) (int_to_float (- 120)) \<Longrightarrow>
   value_f (sensor_1 (myData (fold loop cs w))) = value_f (sensor_1 (myData w))"
  by (induction cs arbitrary: w) (simp_all add: myData_loop sensor_1_acquisition)

lemma fold_loop_failed_2:
  "\<forall>c \<in> set cs. float_le (temp2 c) (int_to_float (- 120)) \<Longrightarrow>
   value_f (sensor_2 (myData (fold loop cs w))) = value_f (sensor_2 (myData w))"
  by (induction cs arbitrary: w) (simp_all add: myData_loop sensor_2_acquisition)

lemma myData_send_sensor_values:
  "myData (send_sensor_values c w) = myData (acquisition (temp1 c) (temp2 c) w)"
  by (simp add: send_sensor_values_def myData_transmission)

lemma trace_setup_fn:
  "trace (setup_fn r w) =
     trace w @ [Serial_begin 115200, Sensors_begin, WiFi_mode WIFI_STA, Esp_now_init] @
       (if r \<noteq> 0 then [Serial_println ''Error initializing ESP-NOW'']
        else [Esp_now_set_self_role ESP_NOW_ROLE_CONTROLLER, Esp_now_register_send_cb,
              Esp_now_add_peer (receiverAdress w) ESP_NOW_ROLE_SLAVE 1])"
  by (simp add: setup_fn_def Let_def trace_emit receiverAdress_emit)

lemma header_setup_fn:
  "id_f (myData (setup_fn r w)) = of_int UNIQUE_DEVICE_ID \<and>
   major (ver (myData (setup_fn r w))) = of_int VER_MAJOR \<and>
   minor (ver (myData (setup_fn r w))) = of_int VER_MINOR \<and>
   intervall (myData (setup_fn r w)) = of_int SEND_INTERVALL_SECONDS"
  by (simp add: myData_setup_fn)

lemma sensors_setup_fn:
  "sensor_1 (myData (setup_fn r w)) = sensor_1 (myData w) \<and>
   sensor_2 (myData (setup_fn r w)) = sensor_2 (myData w)"
  by (simp add: myData_setup_fn)

subsection \<open>The claims\<close>

text \<open>
  Claim C1. A reading at or below \<open>-120\<close> leaves the state field of its sensor at
  FAILED; a reading above \<open>-120\<close> leaves it at SUCCESS and the reading itself,
  unchanged, in the field for the number. This holds for sensor 1 and for sensor 2,
  in the record as \<open>send_sensor_values\<close> leaves it.
\<close>

theorem acquisition_classifies_readings:
  "(float_le (temp1 c) (int_to_float (- 120)) \<longrightarrow>
      state (sensor_1 (myData (send_sensor_values c w))) = state_code FAILED) \<and>
   (float_gt (temp1 c) (int_to_float (- 120)) \<longrightarrow>
      state (sensor_1 (myData (send_sensor_values c w))) = state_code SUCCESS \<and>
      value_f (sensor_1 (myData (send_sensor_values c w))) = temp1 c) \<and>
   (float_le (temp2 c) (int_to_float (- 120)) \<longrightarrow>
      state (sensor_2 (myData (send_sensor_values c w))) = state_code FAILED) \<and>
   (float_gt (temp2 c) (int_to_float (- 120)) \<longrightarrow>
      state (sensor_2 (myData (send_sensor_values c w))) = state_code SUCCESS \<and>
      value_f (sensor_2 (myData (send_sensor_values c w))) = temp2 c)"
  by (simp add: myData_send_sensor_values sensor_1_acquisition sensor_2_acquisition
      float_gt_iff)

theorem acquisition_classifies_readings_witness:
  "float_gt (Finite 21.5) (int_to_float (- 120)) \<and>
   float_le (Finite (- 127)) (int_to_float (- 120)) \<and>
   state (sensor_1 (myData (send_sensor_values
      \<lparr>temp1 = Finite 21.5, temp2 = Finite (- 127), send_results = (\<lambda>k. 1)\<rparr>
      world_at_reset))) = state_code SUCCESS \<and>
   value_f (sensor_1 (myData (send_sensor_values
      \<lparr>temp1 = Finite 21.5, temp2 = Finite (- 127), send_results = (\<lambda>k. 1)\<rparr>
      world_at_reset))) = Finite 21.5 \<and>
   state (sensor_2 (myData (send_sensor_values
      \<lparr>temp1 = Finite 21.5, temp2 = Finite (- 127), send_results = (\<lambda>k. 1)\<rparr>
      world_at_reset))) = state_code FAILED \<and>
   state (sensor_1 (myData (send_sensor_values
      \<lparr>temp1 = Finite (- 120), temp2 = Finite (- 119.9375), send_results = (\<lambda>k. 0)\<rparr>
      world_at_reset))) = state_code FAILED \<and>
   state (sensor_2 (myData (send_sensor_values
      \<lparr>temp1 = Finite (- 120), temp2 = Finite (- 119.9375), send_results = (\<lambda>k. 0)\<rparr>
      world_at_reset))) = state_code SUCCESS \<and>
   value_f (sensor_2 (myData (send_sensor_values
      \<lparr>temp1 = Finite (- 120), temp2 = Finite (- 119.9375), send_results = (\<lambda>k. 0)\<rparr>
      world_at_reset))) = Finite (- 119.9375)"
  using acquisition_classifies_readings
          [of "\<lparr>temp1 = Finite 21.5, temp2 = Finite (- 127), send_results = (\<lambda>k. 1)\<rparr>"
              world_at_reset]
        acquisition_classifies_readings
          [of "\<lparr>temp1 = Finite (- 120), temp2 = Finite (- 119.9375), send_results = (\<lambda>k. 0)\<rparr>"
              world_at_reset]
  by (simp add: int_to_float_def)

text \<open>
  Claim C2. The retry loop makes one send call if the low byte of the first code is
  zero, two if it is not and the low byte of the second code is zero, and three
  otherwise: never more than three, and no other platform call between two
  attempts. What ends the loop is the byte in \<open>res\<close>, not the code returned: the
  code 256 is not zero, its byte is, and a first send that returns 256 ends the
  loop after one attempt. \<open>setup\<close>, which tests the code of \<open>esp_now_init\<close> without
  the conversion, takes 256 as a failure.
\<close>

theorem retry_loop_tests_low_byte:
  "trace (transmission f w) =
     trace w @ replicate (if res_byte (f 0) = 0 then 1 else if res_byte (f 1) = 0 then 2 else 3)
                 (Esp_now_send (receiverAdress w) (myData w) sizeof_myData) \<and>
   (256 :: int) \<noteq> 0 \<and> res_byte 256 = 0 \<and>
   trace (transmission (\<lambda>k. 256) w) =
     trace w @ [Esp_now_send (receiverAdress w) (myData w) sizeof_myData] \<and>
   trace (setup_fn 256 w) =
     trace w @ [Serial_begin 115200, Sensors_begin, WiFi_mode WIFI_STA, Esp_now_init,
                Serial_println ''Error initializing ESP-NOW'']"
proof -
  have byte: "res_byte 256 = 0"
    by (simp add: res_byte_def)
  have "trace (transmission (\<lambda>k. 256) w) =
          trace w @ replicate 1 (Esp_now_send (receiverAdress w) (myData w) sizeof_myData)"
    by (simp add: transmission_trace byte)
  then have one: "trace (transmission (\<lambda>k. 256) w) =
          trace w @ [Esp_now_send (receiverAdress w) (myData w) sizeof_myData]"
    by simp
  have init: "trace (setup_fn 256 w) =
     trace w @ [Serial_begin 115200, Sensors_begin, WiFi_mode WIFI_STA, Esp_now_init,
                Serial_println ''Error initializing ESP-NOW'']"
    by (simp add: trace_setup_fn)
  from byte one init show ?thesis
    by (simp add: transmission_trace)
qed

text \<open>
  Claim C3. The two probe addresses are constants of eight bytes each, but not two
  different ones: \<open>sensor1\<close> and \<open>sensor2\<close> hold the same address, the fifth of the
  overview, whose five entries are pairwise different. Both reads of a cycle query
  that one address.
\<close>

theorem probe_addresses_coincide:
  "sensor1 = sensor2 \<and> length sensor1 = 8 \<and> length sensor2 = 8 \<and>
   sensor1 = sensor_overview ! 4 \<and> distinct sensor_overview \<and>
   trace (acquisition t1 t2 w) =
     trace w @ [RequestTemperatures, GetTempC sensor1, GetTempC sensor1]"
  by (simp add: trace_acquisition sensor1_def sensor2_def sensor_overview_def)

text \<open>
  Claim C4. The duration passed to \<open>ESP.deepSleep\<close> is the interval in seconds times
  1000000, that is 1800000000 microseconds; the product stays below \<open>2 ^ 31\<close>, so the
  32-bit multiplication does not wrap.
\<close>

theorem deep_sleep_duration:
  "sint sleep_time_us = SEND_INTERVALL_SECONDS * 1000000 \<and>
   SEND_INTERVALL_SECONDS * 1000000 = 1800000000 \<and>
   SEND_INTERVALL_SECONDS * 1000000 < 2 ^ 31 \<and>
   trace (start_deep_sleep w) =
     trace w @ [Serial_println ''Going to deep sleep...'',
                DeepSleep (SEND_INTERVALL_SECONDS * 1000000), Yield]"
  by (simp add: trace_start_deep_sleep sint_sleep_time_us SEND_INTERVALL_SECONDS_def)

text \<open>
  Claim C5. Neither \<open>send_sensor_values\<close> nor any number of runs of \<open>loop\<close> changes
  the identifier, the version or the interval of the record, whatever they held
  before; in a boot session, after any number of cycles, the four fields hold the
  constants that \<open>setup\<close> gave them.
\<close>

theorem header_fields_invariant:
  "id_f (myData (send_sensor_values c w)) = id_f (myData w) \<and>
   ver (myData (send_sensor_values c w)) = ver (myData w) \<and>
   intervall (myData (send_sensor_values c w)) = intervall (myData w) \<and>
   id_f (myData (fold loop cs w)) = id_f (myData w) \<and>
   ver (myData (fold loop cs w)) = ver (myData w) \<and>
   intervall (myData (fold loop cs w)) = intervall (myData w) \<and>
   id_f (myData (boot_session init_res cs)) = of_int UNIQUE_DEVICE_ID \<and>
   major (ver (myData (boot_session init_res cs))) = of_int VER_MAJOR \<and>
   minor (ver (myData (boot_session init_res cs))) = of_int VER_MINOR \<and>
   intervall (myData (boot_session init_res cs)) = of_int SEND_INTERVALL_SECONDS"
  by (simp add: boot_session_def fold_loop_header header_setup_fn
      myData_send_sensor_values header_acquisition)

text \<open>
  Claim C6. Whatever the send calls return, \<open>send_sensor_values\<close> ends after one to
  three attempts and \<open>loop\<close> goes on with the three calls of \<open>start_deep_sleep\<close>.
  When the three codes of a cycle all leave a byte other than zero in \<open>res\<close>, there
  are exactly three attempts, followed by the same three calls as in a cycle whose
  first send succeeds. The sketch has no abort, exception or endless wait on this
  path: the model of the cycle is a total function of its inputs.
\<close>

theorem all_sends_fail_still_sleeps:
  "(\<exists>n. 1 \<le> n \<and> n \<le> 3 \<and>
      trace (loop c w) =
        trace w @ [RequestTemperatures, GetTempC sensor1, GetTempC sensor2] @
          replicate n (Esp_now_send (receiverAdress w) (myData (send_sensor_values c w))
                         sizeof_myData) @
          [Serial_println ''Going to deep sleep...'', DeepSleep 1800000000, Yield]) \<and>
   (res_byte (send_results c 0) \<noteq> 0 \<and> res_byte (send_results c 1) \<noteq> 0 \<and>
    res_byte (send_results c 2) \<noteq> 0 \<longrightarrow>
     trace (send_sensor_values c w) =
       trace w @ [RequestTemperatures, GetTempC sensor1, GetTempC sensor2] @
         replicate 3 (Esp_now_send (receiverAdress w) (myData (send_sensor_values c w))
                        sizeof_myData) \<and>
     trace (loop c w) =
       trace (send_sensor_values c w) @
         [Serial_println ''Going to deep sleep...'', DeepSleep 1800000000, Yield] \<and>
     trace (loop (c\<lparr>send_results := (\<lambda>k. 0)\<rparr>) w) =
       trace (send_sensor_values (c\<lparr>send_results := (\<lambda>k. 0)\<rparr>) w) @
         [Serial_println ''Going to deep sleep...'', DeepSleep 1800000000, Yield])"
proof -
  let ?n = "if res_byte (send_results c 0) = 0 then 1
            else if res_byte (send_results c 1) = 0 then 2 else (3 :: nat)"
  have "1 \<le> ?n \<and> ?n \<le> 3"
    by simp
  moreover have "trace (loop c w) =
        trace w @ [RequestTemperatures, GetTempC sensor1, GetTempC sensor2] @
          replicate ?n (Esp_now_send (receiverAdress w) (myData (send_sensor_values c w))
                         sizeof_myData) @
          [Serial_println ''Going to deep sleep...'', DeepSleep 1800000000, Yield]"
    by (simp only: trace_loop myData_send_sensor_values)
  ultimately have any_codes: "\<exists>n. 1 \<le> n \<and> n \<le> 3 \<and>
      trace (loop c w) =
        trace w @ [RequestTemperatures, GetTempC sensor1, GetTempC sensor2] @
          replicate n (Esp_now_send (receiverAdress w) (myData (send_sensor_values c w))
                         sizeof_myData) @
          [Serial_println ''Going to deep sleep...'', DeepSleep 1800000000, Yield]"
    by blast
  show ?thesis
    using any_codes
    by (simp add: loop_def trace_start_deep_sleep send_sensor_values_def transmission_trace
        trace_acquisition receiverAdress_acquisition myData_transmission)
qed

theorem all_sends_fail_still_sleeps_witness:
  "trace (loop \<lparr>temp1 = Finite 21.5, temp2 = Finite 20, send_results = (\<lambda>k. 1)\<rparr>
            world_at_reset) =
     [RequestTemperatures, GetTempC sensor1, GetTempC sensor2] @
       replicate 3 (Esp_now_send receiverAdress_init
         (zero_message\<lparr>sensor_1 := \<lparr>state = 0, value_f = Finite 21.5\<rparr>,
                        sensor_2 := \<lparr>state = 0, value_f = Finite 20\<rparr>\<rparr>) sizeof_myData) @
       [Serial_println ''Going to deep sleep...'', DeepSleep 1800000000, Yield]"
  using all_sends_fail_still_sleeps
          [of "\<lparr>temp1 = Finite 21.5, temp2 = Finite 20, send_results = (\<lambda>k. 1)\<rparr>"
              world_at_reset]
  by (simp add: myData_send_sensor_values acquisition_def store_sensor_1_def
      store_sensor_2_def Let_def emit_def world_at_reset_def int_to_float_def
      zero_message_def zero_sensor_def res_byte_def)

text \<open>
  Claim C7. When \<open>esp_now_init\<close> gives a code other than zero, \<open>setup\<close> prints the
  error message and returns: the role, the send callback and the peer are not
  registered. The first cycle still runs in full: both reads, one to three send
  attempts, and the request for deep sleep.
\<close>

theorem init_failure_continues:
  "init_res \<noteq> 0 \<longrightarrow>
     trace (setup_fn init_res w) =
       trace w @ [Serial_begin 115200, Sensors_begin, WiFi_mode WIFI_STA, Esp_now_init,
                  Serial_println ''Error initializing ESP-NOW''] \<and>
     trace (boot_session init_res [c]) =
       [Serial_begin 115200, Sensors_begin, WiFi_mode WIFI_STA, Esp_now_init,
        Serial_println ''Error initializing ESP-NOW''] @
       [RequestTemperatures, GetTempC sensor1, GetTempC sensor2] @
       replicate (if res_byte (send_results c 0) = 0 then 1
                  else if res_byte (send_results c 1) = 0 then 2 else 3)
         (Esp_now_send receiverAdress_init (myData (boot_session init_res [c]))
            sizeof_myData) @
       [Serial_println ''Going to deep sleep...'', DeepSleep 1800000000, Yield]"
  by (simp add: boot_session_def trace_loop trace_setup_fn receiverAdress_setup_fn
      myData_loop world_at_reset_def)

theorem init_failure_continues_witness:
  "trace (boot_session 1 [\<lparr>temp1 = Finite 21.5, temp2 = Finite (- 127),
                           send_results = (\<lambda>k. 1)\<rparr>]) =
     [Serial_begin 115200, Sensors_begin, WiFi_mode WIFI_STA, Esp_now_init,
      Serial_println ''Error initializing ESP-NOW'',
      RequestTemperatures, GetTempC sensor1, GetTempC sensor2] @
     replicate 3 (Esp_now_send receiverAdress_init
        (myData (boot_session 1 [\<lparr>temp1 = Finite 21.5, temp2 = Finite (- 127),
                                   send_results = (\<lambda>k. 1)\<rparr>])) sizeof_myData) @
     [Serial_println ''Going to deep sleep...'', DeepSleep 1800000000, Yield]"
  using init_failure_continues
          [of 1 world_at_reset
              "\<lparr>temp1 = Finite 21.5, temp2 = Finite (- 127), send_results = (\<lambda>k. 1)\<rparr>"]
  by (simp add: res_byte_def)

text \<open>
  Claim C8. With 21.5 read from probe 1 and -127 from probe 2, whatever
  \<open>esp_now_init\<close> and the send calls return: sensor 1 of the record is SUCCESS with
  21.5, sensor 2 is FAILED, the cycle makes one run of one to three send calls to
  the configured receiver address, and then asks for a deep sleep of 1800 times
  1000000 microseconds.
\<close>

theorem end_to_end_scenario:
  "sensor_1 (myData (boot_session init_res
        [\<lparr>temp1 = Finite 21.5, temp2 = Finite (- 127), send_results = f\<rparr>])) =
     \<lparr>state = state_code SUCCESS, value_f = Finite 21.5\<rparr> \<and>
   state (sensor_2 (myData (boot_session init_res
        [\<lparr>temp1 = Finite 21.5, temp2 = Finite (- 127), send_results = f\<rparr>]))) =
     state_code FAILED \<and>
   trace (boot_session init_res
        [\<lparr>temp1 = Finite 21.5, temp2 = Finite (- 127), send_results = f\<rparr>]) =
     trace (setup_fn init_res world_at_reset) @
     [RequestTemperatures, GetTempC sensor1, GetTempC sensor2] @
     replicate (if res_byte (f 0) = 0 then 1 else if res_byte (f 1) = 0 then 2 else 3)
       (Esp_now_send receiverAdress_init
          (myData (boot_session init_res
             [\<lparr>temp1 = Finite 21.5, temp2 = Finite (- 127), send_results = f\<rparr>]))
          sizeof_myData) @
     [Serial_println ''Going to deep sleep...'',
      DeepSleep (1800 * 1000000), Yield]"
  by (simp add: boot_session_def trace_loop receiverAdress_setup_fn myData_loop
      sensor_1_acquisition sensor_2_acquisition sensors_setup_fn world_at_reset_def
      zero_message_def zero_sensor_def int_to_float_def)

text \<open>
  Claim C9. A reading at or below \<open>-120\<close> changes nothing of its sensor but the
  state field, so the stored number stays what it was; a sensor whose readings have
  all failed since reset still holds the 0.0 of the zero-initialised record.
\<close>

theorem failed_reading_keeps_value:
  "(float_le t1 (int_to_float (- 120)) \<longrightarrow>
      sensor_1 (myData (acquisition t1 t2 w)) =
        (sensor_1 (myData w))\<lparr>state := state_code FAILED\<rparr> \<and>
      value_f (sensor_1 (myData (acquisition t1 t2 w))) = value_f (sensor_1 (myData w))) \<and>
   (float_le t2 (int_to_float (- 120)) \<longrightarrow>
      sensor_2 (myData (acquisition t1 t2 w)) =
        (sensor_2 (myData w))\<lparr>state := state_code FAILED\<rparr> \<and>
      value_f (sensor_2 (myData (acquisition t1 t2 w))) = value_f (sensor_2 (myData w))) \<and>
   ((\<forall>c \<in> set cs. float_le (temp1 c) (int_to_float (- 120))) \<longrightarrow>
      value_f (sensor_1 (myData (boot_session init_res cs))) = Finite 0) \<and>
   ((\<forall>c \<in> set cs. float_le (temp2 c) (int_to_float (- 120))) \<longrightarrow>
      value_f (sensor_2 (myData (boot_session init_res cs))) = Finite 0)"
  by (simp add: sensor_1_acquisition sensor_2_acquisition boot_session_def
      fold_loop_failed_1 fold_loop_failed_2 sensors_setup_fn world_at_reset_def
      zero_message_def zero_sensor_def)

theorem failed_reading_keeps_value_witness:
  "sensor_1 (myData (acquisition (Finite (- 127)) (Finite (- 127))
      (store_sensor_2 (Finite 19) (store_sensor_1 (Finite 18) world_at_reset)))) =
     \<lparr>state = 1, value_f = Finite 18\<rparr> \<and>
   sensor_2 (myData (acquisition (Finite (- 127)) (Finite (- 127))
      (store_sensor_2 (Finite 19) (store_sensor_1 (Finite 18) world_at_reset)))) =
     \<lparr>state = 1, value_f = Finite 19\<rparr> \<and>
   value_f (sensor_1 (myData (boot_session 0
      [\<lparr>temp1 = Finite (- 127), temp2 = Finite (- 127), send_results = (\<lambda>k. 0)\<rparr>]))) =
     Finite 0 \<and>
   value_f (sensor_2 (myData (boot_session 0
      [\<lparr>temp1 = Finite (- 127), temp2 = Finite (- 127), send_results = (\<lambda>k. 0)\<rparr>]))) =
     Finite 0"
  using failed_reading_keeps_value
          [of "Finite (- 127)" "Finite (- 127)"
              "store_sensor_2 (Finite 19) (store_sensor_1 (Finite 18) world_at_reset)"
              "[\<lparr>temp1 = Finite (- 127), temp2 = Finite (- 127), send_results = (\<lambda>k. 0)\<rparr>]"
              0]
  by (simp add: int_to_float_def store_sensor_1_def store_sensor_2_def Let_def
      world_at_reset_def zero_message_def zero_sensor_def)

text \<open>
  Claim C10. The retry loop, started at any index, leaves the record and the
  receiver address as they were, and the send calls of a cycle all carry the same
  address, the same record and the same length. After the acquisition each state
  field is SUCCESS or FAILED, so no record is sent with NOT_USED in it.
\<close>

theorem sends_identical_states_used:
  "myData (retry_loop f r w) = myData w \<and>
   receiverAdress (retry_loop f r w) = receiverAdress w \<and>
   trace (send_sensor_values c w) =
     trace w @ [RequestTemperatures, GetTempC sensor1, GetTempC sensor2] @
       replicate (if res_byte (send_results c 0) = 0 then 1
                  else if res_byte (send_results c 1) = 0 then 2 else 3)
         (Esp_now_send (receiverAdress w) (myData (send_sensor_values c w)) sizeof_myData) \<and>
   (state (sensor_1 (myData (send_sensor_values c w))) = state_code SUCCESS \<or>
    state (sensor_1 (myData (send_sensor_values c w))) = state_code FAILED) \<and>
   (state (sensor_2 (myData (send_sensor_values c w))) = state_code SUCCESS \<or>
    state (sensor_2 (myData (send_sensor_values c w))) = state_code FAILED) \<and>
   state (sensor_1 (myData (send_sensor_values c w))) \<noteq> state_code NOT_USED \<and>
   state (sensor_2 (myData (send_sensor_values c w))) \<noteq> state_code NOT_USED"
  by (simp add: retry_loop_globals send_sensor_values_def transmission_trace
      trace_acquisition receiverAdress_acquisition myData_transmission
      sensor_1_acquisition sensor_2_acquisition)

end
